theory Spec2Isabelle
  imports Complex_Main "HOL-Library.Log_Nat"
begin

section \<open>Credit scoring: the model of \<^verbatim>\<open>credit_scoring.py\<close>\<close>

subsection \<open>Python values\<close>

text \<open>
  The input of \<^verbatim>\<open>evaluate_customer\<close> is a \<^verbatim>\<open>Dict\<close> whose values are dynamically
  typed. The model covers the scalar values a record of the documented fields can hold:
  \<^verbatim>\<open>None\<close>, booleans, unbounded integers, floats and strings. A finite float is the
  rational number it denotes; infinities and NaN are separate values. Strings are byte
  strings.
\<close>

datatype py_error = TypeError | ValueError | OverflowError

datatype pyfloat = Finite rat | PosInf | NegInf | NaN

datatype pyval = PNone | PBool bool | PInt int | PFloat pyfloat | PStr string

type_synonym pydict = "string \<rightharpoonup> pyval"

text \<open>
  The built-ins of Python that read or print numbers as text (\<^verbatim>\<open>float(s)\<close> and
  \<^verbatim>\<open>int(s)\<close> on a string, \<^verbatim>\<open>str(x)\<close> on a number) are not code of this program.
  They are a parameter of the model, so that every theorem below holds whatever they
  compute. Reading a number can raise; so can \<^verbatim>\<open>str(i)\<close> on an integer, which CPython
  refuses with ValueError beyond its limit of digits (4300 by default, from 3.11 on).
  \<^verbatim>\<open>str(x)\<close> on a float always returns.
\<close>

record pylib =
  float_of_str :: "string \<Rightarrow> py_error + pyfloat"
  int_of_str :: "string \<Rightarrow> py_error + int"
  str_of_int :: "int \<Rightarrow> py_error + string"
  str_of_float :: "pyfloat \<Rightarrow> string"

text \<open>
  An instance of the parameter in which no text is a number. It only serves to close
  examples whose records hold no text in a numeric field and no number in a text field;
  on those the library is never consulted.
\<close>

definition strict_lib :: pylib where
  "strict_lib =
     \<lparr>float_of_str = (\<lambda>s. Inl ValueError), int_of_str = (\<lambda>s. Inl ValueError),
      str_of_int = (\<lambda>i. Inr ''0''), str_of_float = (\<lambda>f. ''0.0'')\<rparr>"

definition try_bind :: "'e + 'a \<Rightarrow> ('a \<Rightarrow> 'e + 'b) \<Rightarrow> 'e + 'b" where
  "try_bind m f = (case m of Inl e \<Rightarrow> Inl e | Inr v \<Rightarrow> f v)"

text \<open>\<^verbatim>\<open>data.get(key, default)\<close>\<close>

definition dict_get :: "pydict \<Rightarrow> string \<Rightarrow> pyval \<Rightarrow> pyval" where
  "dict_get data k d = (case data k of None \<Rightarrow> d | Some v \<Rightarrow> v)"

text \<open>Truth value testing, as \<^verbatim>\<open>bool(x)\<close>, \<^verbatim>\<open>if x:\<close> and \<^verbatim>\<open>x or d\<close> apply it.\<close>

fun truthy :: "pyval \<Rightarrow> bool" where
  "truthy PNone = False"
| "truthy (PBool b) = b"
| "truthy (PInt i) = (i \<noteq> 0)"
| "truthy (PFloat (Finite q)) = (q \<noteq> 0)"
| "truthy (PFloat f) = True"
| "truthy (PStr s) = (s \<noteq> [])"

definition py_or :: "pyval \<Rightarrow> pyval \<Rightarrow> pyval" where
  "py_or x d = (if truthy x then x else d)"

text \<open>
  \<^verbatim>\<open>float(i)\<close> on an integer rounds to the nearest double, ties to even, and raises
  OverflowError when the rounded value does not fit (from \<open>2^1024 - 2^970\<close> on).
\<close>

definition float_of_int :: "int \<Rightarrow> py_error + pyfloat" where
  "float_of_int i =
     (let n = nat \<bar>i\<bar> in
      if n < 2 ^ 53 then Inr (Finite (of_int i))
      else
        let k = floorlog 2 n - 53;
            q = n div 2 ^ k;
            r = n mod 2 ^ k;
            h = 2 ^ (k - 1);
            q' = (if h < r \<or> (r = h \<and> odd q) then q + 1 else q);
            m = q' * 2 ^ k
        in if 2 ^ 1024 \<le> m then Inl OverflowError
           else Inr (Finite (of_int (sgn i * int m))))"

fun py_float :: "pylib \<Rightarrow> pyval \<Rightarrow> py_error + pyfloat" where
  "py_float L PNone = Inl TypeError"
| "py_float L (PBool b) = Inr (Finite (if b then 1 else 0))"
| "py_float L (PInt i) = float_of_int i"
| "py_float L (PFloat f) = Inr f"
| "py_float L (PStr s) = float_of_str L s"

text \<open>\<^verbatim>\<open>int(x)\<close> truncates a float towards zero.\<close>

definition trunc :: "rat \<Rightarrow> int" where
  "trunc q = (if 0 \<le> q then \<lfloor>q\<rfloor> else \<lceil>q\<rceil>)"

fun py_int :: "pylib \<Rightarrow> pyval \<Rightarrow> py_error + int" where
  "py_int L PNone = Inl TypeError"
| "py_int L (PBool b) = Inr (if b then 1 else 0)"
| "py_int L (PInt i) = Inr i"
| "py_int L (PFloat (Finite q)) = Inr (trunc q)"
| "py_int L (PFloat NaN) = Inl ValueError"
| "py_int L (PFloat f) = Inl OverflowError"
| "py_int L (PStr s) = int_of_str L s"

fun py_str :: "pylib \<Rightarrow> pyval \<Rightarrow> py_error + string" where
  "py_str L PNone = Inr ''None''"
| "py_str L (PBool b) = Inr (if b then ''True'' else ''False'')"
| "py_str L (PInt i) = str_of_int L i"
| "py_str L (PFloat f) = Inr (str_of_float L f)"
| "py_str L (PStr s) = Inr s"

text \<open>
  \<^verbatim>\<open>str.lower()\<close> and \<^verbatim>\<open>str.upper()\<close> on the ASCII letters; other bytes are kept.
  Python also maps letters beyond ASCII, but the only ASCII letters such a letter can
  turn into are \<open>k\<close> (under \<^verbatim>\<open>lower\<close>) and \<open>F\<close>, \<open>I\<close>, \<open>L\<close>, \<open>S\<close>, \<open>T\<close> (under
  \<^verbatim>\<open>upper\<close>), and none of these occurs in a string this program compares with: a string
  with a letter beyond ASCII matches no keyword, in Python as in the model.
\<close>

definition lower_char :: "char \<Rightarrow> char" where
  "lower_char c =
     (case map_of (zip ''ABCDEFGHIJKLMNOPQRSTUVWXYZ'' ''abcdefghijklmnopqrstuvwxyz'') c of
        None \<Rightarrow> c | Some l \<Rightarrow> l)"

definition upper_char :: "char \<Rightarrow> char" where
  "upper_char c =
     (case map_of (zip ''abcdefghijklmnopqrstuvwxyz'' ''ABCDEFGHIJKLMNOPQRSTUVWXYZ'') c of
        None \<Rightarrow> c | Some u \<Rightarrow> u)"

definition str_lower :: "string \<Rightarrow> string" where
  "str_lower s = map lower_char s"

definition str_upper :: "string \<Rightarrow> string" where
  "str_upper s = map upper_char s"

text \<open>Comparisons of a float with a finite number; every comparison with NaN is false.\<close>

fun fgt :: "pyfloat \<Rightarrow> rat \<Rightarrow> bool" where
  "fgt (Finite q) t = (t < q)"
| "fgt PosInf t = True"
| "fgt NegInf t = False"
| "fgt NaN t = False"

fun fge :: "pyfloat \<Rightarrow> rat \<Rightarrow> bool" where
  "fge (Finite q) t = (t \<le> q)"
| "fge PosInf t = True"
| "fge NegInf t = False"
| "fge NaN t = False"

fun flt :: "pyfloat \<Rightarrow> rat \<Rightarrow> bool" where
  "flt (Finite q) t = (q < t)"
| "flt PosInf t = False"
| "flt NegInf t = True"
| "flt NaN t = False"

fun fle :: "pyfloat \<Rightarrow> rat \<Rightarrow> bool" where
  "fle (Finite q) t = (q \<le> t)"
| "fle PosInf t = False"
| "fle NegInf t = True"
| "fle NaN t = False"

subsection \<open>The result\<close>

datatype RiskBand = LOW | MEDIUM | HIGH

datatype Decision = APPROVE | CONDITIONAL_APPROVAL | REJECT

text \<open>
  Every score of the source is an \<^verbatim>\<open>int\<close>: the sub-scores are integer literals,
  \<^verbatim>\<open>_clamp\<close> returns one of its integer arguments, and \<^verbatim>\<open>round(x, 1)\<close> returns an
  integer unchanged.
\<close>

record ScoreResult =
  total_score :: int
  risk_band :: RiskBand
  decision :: Decision
  category_scores :: "string \<rightharpoonup> int"
  reasons :: "string list"

definition clamp :: "int \<Rightarrow> int \<Rightarrow> int \<Rightarrow> int" where
  "clamp x lo hi = max lo (min hi x)"

subsection \<open>Reading the record\<close>

definition npm :: "pylib \<Rightarrow> pydict \<Rightarrow> py_error + pyfloat" where
  "npm L data = py_float L (dict_get data ''net_profit_margin'' (PFloat (Finite 0)))"

definition curr_ratio :: "pylib \<Rightarrow> pydict \<Rightarrow> py_error + pyfloat" where
  "curr_ratio L data = py_float L (dict_get data ''current_ratio'' (PFloat (Finite 0)))"

definition d2e :: "pylib \<Rightarrow> pydict \<Rightarrow> py_error + pyfloat" where
  "d2e L data = py_float L (dict_get data ''debt_to_equity'' (PFloat (Finite 0)))"

definition bank_util :: "pylib \<Rightarrow> pydict \<Rightarrow> py_error + pyfloat" where
  "bank_util L data =
     py_float L (dict_get data ''banking_limit_utilisation'' (PFloat (Finite 0)))"

definition trend :: "pylib \<Rightarrow> pydict \<Rightarrow> py_error + string" where
  "trend L data =
     try_bind (py_str L (py_or (dict_get data ''turnover_trend'' (PStr ''stable'')) (PStr [])))
       (\<lambda>s. Inr (str_lower s))"

definition avg_days :: "pylib \<Rightarrow> pydict \<Rightarrow> py_error + int" where
  "avg_days L data = py_int L (py_or (dict_get data ''avg_days_to_pay'' (PInt 45)) (PInt 45))"

definition bounces :: "pylib \<Rightarrow> pydict \<Rightarrow> py_error + int" where
  "bounces L data =
     py_int L (py_or (dict_get data ''bounced_cheques_last_12m'' (PInt 0)) (PInt 0))"

definition past_default :: "pydict \<Rightarrow> bool" where
  "past_default data = truthy (dict_get data ''past_default_flag'' (PBool False))"

definition gst_filing_timely :: "pydict \<Rightarrow> pyval" where
  "gst_filing_timely data = dict_get data ''gst_filing_timely'' PNone"

definition active_litigation :: "pydict \<Rightarrow> pyval" where
  "active_litigation data = dict_get data ''active_litigation'' PNone"

definition credit_rating :: "pydict \<Rightarrow> pyval" where
  "credit_rating data = dict_get data ''credit_rating'' PNone"

definition years :: "pylib \<Rightarrow> pydict \<Rightarrow> py_error + pyfloat" where
  "years L data =
     py_float L (py_or (dict_get data ''years_in_business'' (PFloat (Finite 0)))
                       (PFloat (Finite 0)))"

definition industry_risk :: "pylib \<Rightarrow> pydict \<Rightarrow> py_error + string" where
  "industry_risk L data =
     try_bind (py_str L (py_or (dict_get data ''industry_risk'' (PStr ''medium''))
                                (PStr ''medium'')))
       (\<lambda>s. Inr (str_lower s))"

definition top5_share :: "pylib \<Rightarrow> pydict \<Rightarrow> py_error + pyfloat" where
  "top5_share L data =
     py_float L (py_or (dict_get data ''top_5_customer_share'' (PFloat (Finite 0)))
                       (PFloat (Finite 0)))"

definition mgmt_risk :: "pydict \<Rightarrow> bool" where
  "mgmt_risk data = truthy (dict_get data ''management_risk_flag'' (PBool False))"

subsection \<open>1) Financial strength (40 points)\<close>

definition s_npm :: "pyfloat \<Rightarrow> int \<times> string list" where
  "s_npm x =
     (if fgt x 10 then (10, [])
      else if fgt x 5 then (8, [])
      else if fgt x 2 then (5, [])
      else if fgt x 0 then (2, [])
      else (0, [''Net profit margin is very low or negative.'']))"

text \<open>The literal \<^verbatim>\<open>1.2\<close> is the double \<open>5404319552844595 / 2^52\<close>.\<close>

definition s_cr :: "pyfloat \<Rightarrow> int \<times> string list" where
  "s_cr x =
     (if fge x (3 / 2) then (8, [])
      else if fge x (5404319552844595 / 4503599627370496) then (6, [])
      else if fge x 1 then (4, [])
      else (1, [''Current ratio below 1.0 indicates tight liquidity.'']))"

definition s_d2e :: "pyfloat \<Rightarrow> int \<times> string list" where
  "s_d2e x =
     (if fle x 1 then (8, [])
      else if fle x 2 then (6, [])
      else if fle x 3 then (3, [])
      else (0, [''Debt-to-equity is very high.'']))"

definition s_bank :: "pyfloat \<Rightarrow> int \<times> string list" where
  "s_bank x =
     (if fge x 40 \<and> fle x 80 then (8, [])
      else if flt x 40 then
        (6, [''Bank limit utilisation is low; could indicate underutilisation of facilities.''])
      else if fle x 90 then (5, [])
      else
        (2, [''Bank limit utilisation consistently >90% indicates stress on working capital.'']))"

definition s_trend :: "string \<Rightarrow> int \<times> string list" where
  "s_trend t =
     (if t = ''improving'' then (6, [])
      else if t = ''stable'' then (4, [])
      else if t = ''declining'' then (1, [''Turnover trend is declining.''])
      else (3, []))"

definition financial_strength ::
  "pyfloat \<Rightarrow> pyfloat \<Rightarrow> pyfloat \<Rightarrow> pyfloat \<Rightarrow> string \<Rightarrow> int \<times> string list" where
  "financial_strength n c d b t =
     (clamp (fst (s_npm n) + fst (s_cr c) + fst (s_d2e d) + fst (s_bank b) + fst (s_trend t))
        0 40,
      snd (s_npm n) @ snd (s_cr c) @ snd (s_d2e d) @ snd (s_bank b) @ snd (s_trend t))"

subsection \<open>2) Payment behaviour (30 points)\<close>

definition s_days :: "int \<Rightarrow> int \<times> string list" where
  "s_days a =
     (if a \<le> 30 then (10, [])
      else if a \<le> 45 then (8, [])
      else if a \<le> 60 then (5, [])
      else if a \<le> 90 then (2, [''Average payment days are on the higher side.''])
      else (0, [''Very high average payment days.'']))"

definition s_bounce :: "int \<Rightarrow> int \<times> string list" where
  "s_bounce b =
     (if b = 0 then (10, [])
      else if b \<le> 2 then (7, [''Some cheque bounces in last 12 months.''])
      else if b \<le> 5 then (3, [''Multiple cheque bounces in last 12 months.''])
      else (0, [''Frequent cheque bounces in last 12 months.'']))"

definition s_default_adj :: "bool \<Rightarrow> int \<times> string list" where
  "s_default_adj p =
     (if p then (- 5, [''History of default / write-off reported.'']) else (0, []))"

definition payment_behaviour :: "int \<Rightarrow> int \<Rightarrow> bool \<Rightarrow> int \<times> string list" where
  "payment_behaviour a b p =
     (clamp (fst (s_days a) + fst (s_bounce b) + fst (s_default_adj p)) 0 30,
      snd (s_days a) @ snd (s_bounce b) @ snd (s_default_adj p))"

subsection \<open>3) External checks (15 points)\<close>

text \<open>
  \<^verbatim>\<open>is True\<close> and \<^verbatim>\<open>is False\<close> compare by identity with the two boolean objects:
  no other value passes.
\<close>

definition s_gst :: "pyval \<Rightarrow> int \<times> string list" where
  "s_gst g =
     (if g = PBool True then (5, [])
      else if g = PBool False then (1, [''GST filing not timely.''])
      else (3, []))"

definition s_lit :: "pyval \<Rightarrow> int \<times> string list" where
  "s_lit l =
     (if l = PBool False then (5, [])
      else if l = PBool True then (1, [''Active litigation / legal disputes reported.''])
      else (3, []))"

definition rating_score_map :: "string \<rightharpoonup> int" where
  "rating_score_map =
     map_of [(''AAA'', 5), (''AA'', 4), (''A'', 3), (''BBB'', 2), (''BB'', 1), (''B'', 0),
             (''C'', 0)]"

text \<open>The rating is the one step of this category that can raise: \<^verbatim>\<open>str(credit_rating)\<close>.\<close>

definition s_rating :: "pylib \<Rightarrow> pyval \<Rightarrow> py_error + int \<times> string list" where
  "s_rating L c =
     (if truthy c then
        try_bind (py_str L c) (\<lambda>s.
          let cr_up = str_upper s in
            Inr (case rating_score_map cr_up of None \<Rightarrow> 1 | Some v \<Rightarrow> v,
                 if cr_up = ''B'' \<or> cr_up = ''C''
                 then [''Weak external rating ('' @ cr_up @ '').''] else []))
      else Inr (1, []))"

definition external_checks ::
  "pyval \<Rightarrow> pyval \<Rightarrow> int \<times> string list \<Rightarrow> int \<times> string list" where
  "external_checks g l ra =
     (clamp (fst (s_gst g) + fst (s_lit l) + fst ra) 0 15,
      snd (s_gst g) @ snd (s_lit l) @ snd ra)"

subsection \<open>4) Business stability (15 points)\<close>

definition s_years :: "pyfloat \<Rightarrow> int \<times> string list" where
  "s_years y =
     (if fge y 10 then (6, [])
      else if fge y 5 then (4, [])
      else if fge y 2 then (2, [])
      else (0, [''Limited operating history.'']))"

definition s_ind :: "string \<Rightarrow> int \<times> string list" where
  "s_ind i =
     (if i = ''low'' then (5, [])
      else if i = ''medium'' then (3, [])
      else if i = ''high'' then (1, [''High-risk industry.''])
      else (2, []))"

definition s_conc :: "pyfloat \<Rightarrow> int \<times> string list" where
  "s_conc t =
     (if fle t 40 then (4, [])
      else if fle t 60 then (3, [])
      else if fle t 80 then (2, [''Moderate customer concentration.''])
      else (0, [''Very high dependence on few customers.'']))"

text \<open>The management penalty is subtracted from the raw sum before the clamp.\<close>

definition mgmt_penalty :: "bool \<Rightarrow> int \<times> string list" where
  "mgmt_penalty m =
     (if m then (3, [''Concerns flagged on management integrity / governance.''])
      else (0, []))"

definition business_stability ::
  "pyfloat \<Rightarrow> string \<Rightarrow> pyfloat \<Rightarrow> bool \<Rightarrow> int \<times> string list" where
  "business_stability y i t m =
     (clamp (fst (s_years y) + fst (s_ind i) + fst (s_conc t) - fst (mgmt_penalty m)) 0 15,
      snd (s_years y) @ snd (s_ind i) @ snd (s_conc t) @ snd (mgmt_penalty m))"

subsection \<open>Aggregate score and decision\<close>

definition aggregate ::
  "int \<times> string list \<Rightarrow> int \<times> string list \<Rightarrow> int \<times> string list \<Rightarrow> int \<times> string list
     \<Rightarrow> ScoreResult" where
  "aggregate fs pb ec bs =
     (let total = clamp (fst fs + fst pb + fst ec + fst bs) 0 100;
          band = (if 75 \<le> total then LOW else if 50 \<le> total then MEDIUM else HIGH);
          dec = (if band = LOW then APPROVE
                 else if band = MEDIUM then CONDITIONAL_APPROVAL
                 else REJECT)
      in \<lparr>total_score = total, risk_band = band, decision = dec,
          category_scores =
            [''financial_strength'' \<mapsto> fst fs, ''payment_behaviour'' \<mapsto> fst pb,
             ''external_checks'' \<mapsto> fst ec, ''business_stability'' \<mapsto> fst bs],
          reasons = snd fs @ snd pb @ snd ec @ snd bs\<rparr>)"

text \<open>
  The main function. The conversions that can raise are tried in the order of the
  source (lines 61 to 65, 131, 132, 208, 219 to 221); the first one that fails ends the
  evaluation with its exception.
\<close>

definition evaluate_customer :: "pylib \<Rightarrow> pydict \<Rightarrow> py_error + ScoreResult" where
  "evaluate_customer L data =
     try_bind (npm L data) (\<lambda>n.
     try_bind (curr_ratio L data) (\<lambda>c.
     try_bind (d2e L data) (\<lambda>d.
     try_bind (bank_util L data) (\<lambda>b.
     try_bind (trend L data) (\<lambda>tr.
     try_bind (avg_days L data) (\<lambda>a.
     try_bind (bounces L data) (\<lambda>bo.
     try_bind (s_rating L (credit_rating data)) (\<lambda>ra.
     try_bind (years L data) (\<lambda>y.
     try_bind (industry_risk L data) (\<lambda>i.
     try_bind (top5_share L data) (\<lambda>t.
       Inr (aggregate
              (financial_strength n c d b tr)
              (payment_behaviour a bo (past_default data))
              (external_checks (gst_filing_timely data) (active_litigation data) ra)
              (business_stability y i t (mgmt_risk data))))))))))))))"

subsection \<open>The documented fields and two applicants\<close>

text \<open>The keys listed in the docstring of \<^verbatim>\<open>evaluate_customer\<close>.\<close>

definition input_fields :: "string list" where
  "input_fields =
     [''net_profit_margin'', ''current_ratio'', ''debt_to_equity'',
      ''banking_limit_utilisation'', ''turnover_trend'', ''avg_days_to_pay'',
      ''bounced_cheques_last_12m'', ''past_default_flag'', ''gst_filing_timely'',
      ''active_litigation'', ''credit_rating'', ''years_in_business'', ''industry_risk'',
      ''top_5_customer_share'', ''management_risk_flag'']"

text \<open>
  The weak applicant of the specification. The float literal \<^verbatim>\<open>0.8\<close> is the double
  \<open>3602879701896397 / 2^52\<close>.
\<close>

definition weak_applicant :: pydict where
  "weak_applicant =
     [''net_profit_margin'' \<mapsto> PInt (- 2),
      ''current_ratio'' \<mapsto> PFloat (Finite (3602879701896397 / 4503599627370496)),
      ''debt_to_equity'' \<mapsto> PInt 4,
      ''banking_limit_utilisation'' \<mapsto> PInt 95,
      ''turnover_trend'' \<mapsto> PStr ''declining'',
      ''avg_days_to_pay'' \<mapsto> PInt 120,
      ''bounced_cheques_last_12m'' \<mapsto> PInt 7,
      ''past_default_flag'' \<mapsto> PBool True,
      ''gst_filing_timely'' \<mapsto> PBool False,
      ''active_litigation'' \<mapsto> PBool True,
      ''credit_rating'' \<mapsto> PStr ''C'',
      ''years_in_business'' \<mapsto> PInt 1,
      ''industry_risk'' \<mapsto> PStr ''high'',
      ''top_5_customer_share'' \<mapsto> PInt 90,
      ''management_risk_flag'' \<mapsto> PBool True]"

text \<open>The strong applicant of the specification.\<close>

definition strong_applicant :: pydict where
  "strong_applicant =
     [''net_profit_margin'' \<mapsto> PInt 15,
      ''current_ratio'' \<mapsto> PFloat (Finite 2),
      ''debt_to_equity'' \<mapsto> PFloat (Finite (1 / 2)),
      ''banking_limit_utilisation'' \<mapsto> PInt 60,
      ''turnover_trend'' \<mapsto> PStr ''improving'',
      ''avg_days_to_pay'' \<mapsto> PInt 20,
      ''bounced_cheques_last_12m'' \<mapsto> PInt 0,
      ''past_default_flag'' \<mapsto> PBool False,
      ''gst_filing_timely'' \<mapsto> PBool True,
      ''active_litigation'' \<mapsto> PBool False,
      ''credit_rating'' \<mapsto> PStr ''AAA'',
      ''years_in_business'' \<mapsto> PInt 15,
      ''industry_risk'' \<mapsto> PStr ''low'',
      ''top_5_customer_share'' \<mapsto> PInt 20,
      ''management_risk_flag'' \<mapsto> PBool False]"

section \<open>Properties\<close>

subsection \<open>Ranges and the shape of a result\<close>

lemma clamp_range: "lo \<le> hi \<Longrightarrow> lo \<le> clamp x lo hi \<and> clamp x lo hi \<le> hi"
  by (simp add: clamp_def)

lemma financial_strength_range:
  "0 \<le> fst (financial_strength n c d b t) \<and> fst (financial_strength n c d b t) \<le> 40"
  using clamp_range [of 0 40] by (simp add: financial_strength_def)

lemma payment_behaviour_range:
  "0 \<le> fst (payment_behaviour a b p) \<and> fst (payment_behaviour a b p) \<le> 30"
  using clamp_range [of 0 30] by (simp add: payment_behaviour_def)

lemma external_checks_range:
  "0 \<le> fst (external_checks g l ra) \<and> fst (external_checks g l ra) \<le> 15"
  using clamp_range [of 0 15] by (simp add: external_checks_def)

lemma business_stability_range:
  "0 \<le> fst (business_stability y i t m) \<and> fst (business_stability y i t m) \<le> 15"
  using clamp_range [of 0 15] by (simp add: business_stability_def)

lemma evaluate_customer_Inr:
  assumes "evaluate_customer L data = Inr r"
  obtains n c d b tr a bo ra y i t where
    "npm L data = Inr n" "curr_ratio L data = Inr c" "d2e L data = Inr d"
    "bank_util L data = Inr b" "trend L data = Inr tr" "avg_days L data = Inr a"
    "bounces L data = Inr bo" "s_rating L (credit_rating data) = Inr ra"
    "years L data = Inr y" "industry_risk L data = Inr i" "top5_share L data = Inr t"
    "r = aggregate (financial_strength n c d b tr)
           (payment_behaviour a bo (past_default data))
           (external_checks (gst_filing_timely data) (active_litigation data) ra)
           (business_stability y i t (mgmt_risk data))"
proof -
  note defs = evaluate_customer_def try_bind_def
  obtain n where 1: "npm L data = Inr n"
    using assms by (cases "npm L data") (simp_all add: defs)
  obtain c where 2: "curr_ratio L data = Inr c"
    using assms 1 by (cases "curr_ratio L data") (simp_all add: defs)
  obtain d where 3: "d2e L data = Inr d"
    using assms 1 2 by (cases "d2e L data") (simp_all add: defs)
  obtain b where 4: "bank_util L data = Inr b"
    using assms 1 2 3 by (cases "bank_util L data") (simp_all add: defs)
  obtain tr where 5: "trend L data = Inr tr"
    using assms 1 2 3 4 by (cases "trend L data") (simp_all add: defs)
  obtain a where 6: "avg_days L data = Inr a"
    using assms 1 2 3 4 5 by (cases "avg_days L data") (simp_all add: defs)
  obtain bo where 7: "bounces L data = Inr bo"
    using assms 1 2 3 4 5 6 by (cases "bounces L data") (simp_all add: defs)
  obtain ra where 8: "s_rating L (credit_rating data) = Inr ra"
    using assms 1 2 3 4 5 6 7
    by (cases "s_rating L (credit_rating data)") (simp_all add: defs)
  obtain y where 9: "years L data = Inr y"
    using assms 1 2 3 4 5 6 7 8 by (cases "years L data") (simp_all add: defs)
  obtain i where 10: "industry_risk L data = Inr i"
    using assms 1 2 3 4 5 6 7 8 9 by (cases "industry_risk L data") (simp_all add: defs)
  obtain t where 11: "top5_share L data = Inr t"
    using assms 1 2 3 4 5 6 7 8 9 10 by (cases "top5_share L data") (simp_all add: defs)
  from assms 1 2 3 4 5 6 7 8 9 10 11 show thesis
    by (intro that [of n c d b tr a bo ra y i t]) (simp_all add: defs)
qed

lemma aggregate_total:
  "total_score (aggregate fs pb ec bs) = clamp (fst fs + fst pb + fst ec + fst bs) 0 100"
  by (simp add: aggregate_def Let_def)

lemma aggregate_band:
  "risk_band (aggregate fs pb ec bs) =
     (if 75 \<le> total_score (aggregate fs pb ec bs) then LOW
      else if 50 \<le> total_score (aggregate fs pb ec bs) then MEDIUM else HIGH)"
  by (simp add: aggregate_def Let_def)

lemma aggregate_decision:
  "decision (aggregate fs pb ec bs) =
     (if 75 \<le> total_score (aggregate fs pb ec bs) then APPROVE
      else if 50 \<le> total_score (aggregate fs pb ec bs) then CONDITIONAL_APPROVAL else REJECT)"
  by (simp add: aggregate_def Let_def)

lemma aggregate_categories:
  "category_scores (aggregate fs pb ec bs) ''financial_strength'' = Some (fst fs)"
  "category_scores (aggregate fs pb ec bs) ''payment_behaviour'' = Some (fst pb)"
  "category_scores (aggregate fs pb ec bs) ''external_checks'' = Some (fst ec)"
  "category_scores (aggregate fs pb ec bs) ''business_stability'' = Some (fst bs)"
  by (simp_all add: aggregate_def Let_def)

lemma aggregate_reasons:
  "reasons (aggregate fs pb ec bs) = snd fs @ snd pb @ snd ec @ snd bs"
  by (simp add: aggregate_def Let_def)

lemma result_classified:
  assumes "evaluate_customer L data = Inr r"
  shows "risk_band r = (if 75 \<le> total_score r then LOW else if 50 \<le> total_score r then MEDIUM else HIGH)"
    and "decision r = (if 75 \<le> total_score r then APPROVE
           else if 50 \<le> total_score r then CONDITIONAL_APPROVAL else REJECT)"
proof -
  obtain fs pb ec bs where r: "r = aggregate fs pb ec bs"
    using assms by (rule evaluate_customer_Inr)
  show "risk_band r = (if 75 \<le> total_score r then LOW else if 50 \<le> total_score r then MEDIUM else HIGH)"
    unfolding r by (rule aggregate_band)
  show "decision r = (if 75 \<le> total_score r then APPROVE
           else if 50 \<le> total_score r then CONDITIONAL_APPROVAL else REJECT)"
    unfolding r by (rule aggregate_decision)
qed

subsection \<open>Evaluating the empty record and the two applicants\<close>

lemmas readers = npm_def curr_ratio_def d2e_def bank_util_def trend_def avg_days_def bounces_def
  past_default_def gst_filing_timely_def active_litigation_def credit_rating_def years_def
  industry_risk_def top5_share_def mgmt_risk_def dict_get_def py_or_def

lemmas sub_scores = s_npm_def s_cr_def s_d2e_def s_bank_def s_trend_def s_days_def s_bounce_def
  s_default_adj_def s_gst_def s_lit_def s_years_def s_ind_def s_conc_def mgmt_penalty_def

lemma empty_reads:
  "npm L Map.empty = Inr (Finite 0)" "curr_ratio L Map.empty = Inr (Finite 0)"
  "d2e L Map.empty = Inr (Finite 0)" "bank_util L Map.empty = Inr (Finite 0)"
  "trend L Map.empty = Inr ''stable''" "avg_days L Map.empty = Inr 45"
  "bounces L Map.empty = Inr 0" "past_default Map.empty = False"
  "gst_filing_timely Map.empty = PNone" "active_litigation Map.empty = PNone"
  "credit_rating Map.empty = PNone" "years L Map.empty = Inr (Finite 0)"
  "industry_risk L Map.empty = Inr ''medium''" "top5_share L Map.empty = Inr (Finite 0)"
  "mgmt_risk Map.empty = False"
  by (simp_all add: readers try_bind_def str_lower_def lower_char_def)

lemma weak_reads:
  "npm L weak_applicant = Inr (Finite (- 2))"
  "curr_ratio L weak_applicant = Inr (Finite (3602879701896397 / 4503599627370496))"
  "d2e L weak_applicant = Inr (Finite 4)" "bank_util L weak_applicant = Inr (Finite 95)"
  "trend L weak_applicant = Inr ''declining''" "avg_days L weak_applicant = Inr 120"
  "bounces L weak_applicant = Inr 7" "past_default weak_applicant = True"
  "gst_filing_timely weak_applicant = PBool False" "active_litigation weak_applicant = PBool True"
  "credit_rating weak_applicant = PStr ''C''" "years L weak_applicant = Inr (Finite 1)"
  "industry_risk L weak_applicant = Inr ''high''" "top5_share L weak_applicant = Inr (Finite 90)"
  "mgmt_risk weak_applicant = True"
  by (simp_all add: readers try_bind_def weak_applicant_def float_of_int_def str_lower_def
      lower_char_def)

lemma strong_reads:
  "npm L strong_applicant = Inr (Finite 15)"
  "curr_ratio L strong_applicant = Inr (Finite 2)"
  "d2e L strong_applicant = Inr (Finite (1 / 2))" "bank_util L strong_applicant = Inr (Finite 60)"
  "trend L strong_applicant = Inr ''improving''" "avg_days L strong_applicant = Inr 20"
  "bounces L strong_applicant = Inr 0" "past_default strong_applicant = False"
  "gst_filing_timely strong_applicant = PBool True" "active_litigation strong_applicant = PBool False"
  "credit_rating strong_applicant = PStr ''AAA''" "years L strong_applicant = Inr (Finite 15)"
  "industry_risk L strong_applicant = Inr ''low''" "top5_share L strong_applicant = Inr (Finite 20)"
  "mgmt_risk strong_applicant = False"
  by (simp_all add: readers try_bind_def strong_applicant_def float_of_int_def str_lower_def
      lower_char_def)

lemma rating_C: "s_rating L (PStr ''C'') = Inr (0, [''Weak external rating (C).''])"
  by (simp add: s_rating_def try_bind_def rating_score_map_def str_upper_def upper_char_def)

lemma rating_AAA: "s_rating L (PStr ''AAA'') = Inr (5, [])"
  by (simp add: s_rating_def try_bind_def rating_score_map_def str_upper_def upper_char_def)

lemma rating_None: "s_rating L PNone = Inr (1, [])"
  by (simp add: s_rating_def)

lemma empty_categories:
  "financial_strength (Finite 0) (Finite 0) (Finite 0) (Finite 0) ''stable'' =
     (19, [''Net profit margin is very low or negative.'',
           ''Current ratio below 1.0 indicates tight liquidity.'',
           ''Bank limit utilisation is low; could indicate underutilisation of facilities.''])"
  "payment_behaviour 45 0 False = (18, [])"
  "external_checks PNone PNone (1, []) = (7, [])"
  "business_stability (Finite 0) ''medium'' (Finite 0) False = (7, [''Limited operating history.''])"
  by (simp_all add: financial_strength_def payment_behaviour_def external_checks_def
      business_stability_def sub_scores clamp_def)

lemma weak_categories:
  "financial_strength (Finite (- 2)) (Finite (3602879701896397 / 4503599627370496)) (Finite 4)
      (Finite 95) ''declining'' =
     (4, [''Net profit margin is very low or negative.'',
          ''Current ratio below 1.0 indicates tight liquidity.'',
          ''Debt-to-equity is very high.'',
          ''Bank limit utilisation consistently >90% indicates stress on working capital.'',
          ''Turnover trend is declining.''])"
  "payment_behaviour 120 7 True =
     (0, [''Very high average payment days.'', ''Frequent cheque bounces in last 12 months.'',
          ''History of default / write-off reported.''])"
  "external_checks (PBool False) (PBool True) (0, [''Weak external rating (C).'']) =
     (2, [''GST filing not timely.'', ''Active litigation / legal disputes reported.'',
          ''Weak external rating (C).''])"
  "business_stability (Finite 1) ''high'' (Finite 90) True =
     (0, [''Limited operating history.'', ''High-risk industry.'',
          ''Very high dependence on few customers.'',
          ''Concerns flagged on management integrity / governance.''])"
  by (simp_all add: financial_strength_def payment_behaviour_def external_checks_def
      business_stability_def sub_scores clamp_def)

lemma strong_categories:
  "financial_strength (Finite 15) (Finite 2) (Finite (1 / 2)) (Finite 60) ''improving'' = (40, [])"
  "payment_behaviour 20 0 False = (20, [])"
  "external_checks (PBool True) (PBool False) (5, []) = (15, [])"
  "business_stability (Finite 15) ''low'' (Finite 20) False = (15, [])"
  by (simp_all add: financial_strength_def payment_behaviour_def external_checks_def
      business_stability_def sub_scores clamp_def)

lemma empty_record_result:
  "evaluate_customer L Map.empty =
     Inr (aggregate
       (19, [''Net profit margin is very low or negative.'',
           ''Current ratio below 1.0 indicates tight liquidity.'',
           ''Bank limit utilisation is low; could indicate underutilisation of facilities.''])
       (18, []) (7, []) (7, [''Limited operating history.'']))"
  by (simp add: evaluate_customer_def try_bind_def empty_reads rating_None empty_categories)

lemma weak_applicant_result:
  "evaluate_customer L weak_applicant =
     Inr (aggregate
       (4, [''Net profit margin is very low or negative.'',
          ''Current ratio below 1.0 indicates tight liquidity.'',
          ''Debt-to-equity is very high.'',
          ''Bank limit utilisation consistently >90% indicates stress on working capital.'',
          ''Turnover trend is declining.''])
       (0, [''Very high average payment days.'', ''Frequent cheque bounces in last 12 months.'',
          ''History of default / write-off reported.''])
       (2, [''GST filing not timely.'', ''Active litigation / legal disputes reported.'',
          ''Weak external rating (C).''])
       (0, [''Limited operating history.'', ''High-risk industry.'',
          ''Very high dependence on few customers.'',
          ''Concerns flagged on management integrity / governance.'']))"
  by (simp add: evaluate_customer_def try_bind_def weak_reads rating_C weak_categories)

lemma strong_applicant_result:
  "evaluate_customer L strong_applicant = Inr (aggregate (40, []) (20, []) (15, []) (15, []))"
  by (simp add: evaluate_customer_def try_bind_def strong_reads rating_AAA strong_categories)

lemma aggregate_eval:
  "aggregate (19, a) (18, b) (7, c) (7, d) =
     \<lparr>total_score = 51, risk_band = MEDIUM, decision = CONDITIONAL_APPROVAL,
      category_scores =
        [''financial_strength'' \<mapsto> 19, ''payment_behaviour'' \<mapsto> 18,
         ''external_checks'' \<mapsto> 7, ''business_stability'' \<mapsto> 7],
      reasons = a @ b @ c @ d\<rparr>"
  "aggregate (4, a) (0, b) (2, c) (0, d) =
     \<lparr>total_score = 6, risk_band = HIGH, decision = REJECT,
      category_scores =
        [''financial_strength'' \<mapsto> 4, ''payment_behaviour'' \<mapsto> 0,
         ''external_checks'' \<mapsto> 2, ''business_stability'' \<mapsto> 0],
      reasons = a @ b @ c @ d\<rparr>"
  "aggregate (40, a) (20, b) (15, c) (15, d) =
     \<lparr>total_score = 90, risk_band = LOW, decision = APPROVE,
      category_scores =
        [''financial_strength'' \<mapsto> 40, ''payment_behaviour'' \<mapsto> 20,
         ''external_checks'' \<mapsto> 15, ''business_stability'' \<mapsto> 15],
      reasons = a @ b @ c @ d\<rparr>"
  by (simp_all add: aggregate_def clamp_def)

subsection \<open>Claims\<close>

text \<open>
  C1. Whenever \<^verbatim>\<open>evaluate_customer\<close> returns, band and decision follow the thresholds
  on the returned \<open>total_score\<close>: from 75 on LOW and APPROVE, from 50 up to (not
  including) 75 MEDIUM and CONDITIONAL\_APPROVAL, below 50 HIGH and REJECT. They depend on
  \<open>total_score\<close> alone: any other evaluation that returns the same total returns the
  same band and decision.
\<close>

theorem band_and_decision_by_thresholds:
  assumes "evaluate_customer L data = Inr r"
  shows "(75 \<le> total_score r \<longrightarrow> risk_band r = LOW \<and> decision r = APPROVE) \<and>
         (50 \<le> total_score r \<and> total_score r < 75 \<longrightarrow>
            risk_band r = MEDIUM \<and> decision r = CONDITIONAL_APPROVAL) \<and>
         (total_score r < 50 \<longrightarrow> risk_band r = HIGH \<and> decision r = REJECT) \<and>
         (\<forall>L' data' r'. evaluate_customer L' data' = Inr r' \<and> total_score r' = total_score r \<longrightarrow>
            risk_band r' = risk_band r \<and> decision r' = decision r)"
proof -
  have same: "risk_band r' = risk_band r \<and> decision r' = decision r"
    if "evaluate_customer L' data' = Inr r'" "total_score r' = total_score r" for L' data' r'
    using result_classified [OF assms] result_classified [OF that(1)] that(2) by simp
  show ?thesis
    using result_classified [OF assms] same by auto
qed

theorem band_and_decision_by_thresholds_witness:
  "(case evaluate_customer strict_lib strong_applicant of Inl e \<Rightarrow> False
    | Inr r \<Rightarrow> total_score r = 90 \<and> risk_band r = LOW \<and> decision r = APPROVE) \<and>
   (case evaluate_customer strict_lib Map.empty of Inl e \<Rightarrow> False
    | Inr r \<Rightarrow> total_score r = 51 \<and> risk_band r = MEDIUM \<and> decision r = CONDITIONAL_APPROVAL) \<and>
   (case evaluate_customer strict_lib weak_applicant of Inl e \<Rightarrow> False
    | Inr r \<Rightarrow> total_score r = 6 \<and> risk_band r = HIGH \<and> decision r = REJECT)"
proof -
  note s = strong_applicant_result [of strict_lib]
  note e = empty_record_result [of strict_lib]
  note w = weak_applicant_result [of strict_lib]
  have "risk_band r = LOW \<and> decision r = APPROVE"
    if "evaluate_customer strict_lib strong_applicant = Inr r" "total_score r = 90" for r
    using band_and_decision_by_thresholds [OF that(1), THEN conjunct1] that(2) by simp
  moreover have "risk_band r = MEDIUM \<and> decision r = CONDITIONAL_APPROVAL"
    if "evaluate_customer strict_lib Map.empty = Inr r" "total_score r = 51" for r
    using band_and_decision_by_thresholds [OF that(1), THEN conjunct2, THEN conjunct1] that(2)
    by simp
  moreover have "risk_band r = HIGH \<and> decision r = REJECT"
    if "evaluate_customer strict_lib weak_applicant = Inr r" "total_score r = 6" for r
    using band_and_decision_by_thresholds
      [OF that(1), THEN conjunct2, THEN conjunct2, THEN conjunct1] that(2)
    by simp
  ultimately show ?thesis
    by (simp add: s e w aggregate_total clamp_def)
qed

text \<open>
  C2. Whenever \<^verbatim>\<open>evaluate_customer\<close> returns, the four published category scores lie
  within their ceilings (financial strength in 0..40, payment behaviour in 0..30, external
  checks in 0..15, business stability in 0..15) and the total lies in 0..100.
\<close>

theorem scores_within_ceilings:
  assumes "evaluate_customer L data = Inr r"
  shows "\<exists>fs pb ec bs.
           category_scores r ''financial_strength'' = Some fs \<and> 0 \<le> fs \<and> fs \<le> 40 \<and>
           category_scores r ''payment_behaviour'' = Some pb \<and> 0 \<le> pb \<and> pb \<le> 30 \<and>
           category_scores r ''external_checks'' = Some ec \<and> 0 \<le> ec \<and> ec \<le> 15 \<and>
           category_scores r ''business_stability'' = Some bs \<and> 0 \<le> bs \<and> bs \<le> 15 \<and>
           0 \<le> total_score r \<and> total_score r \<le> 100"
proof -
  obtain n c d b tr a bo ra y i t where
    r: "r = aggregate (financial_strength n c d b tr)
           (payment_behaviour a bo (past_default data))
           (external_checks (gst_filing_timely data) (active_litigation data) ra)
           (business_stability y i t (mgmt_risk data))"
    using assms by (rule evaluate_customer_Inr)
  have "0 \<le> total_score r \<and> total_score r \<le> 100"
    unfolding r aggregate_total by (rule clamp_range) simp
  then show ?thesis
    unfolding r
    using financial_strength_range [of n c d b tr]
      payment_behaviour_range [of a bo "past_default data"]
      external_checks_range [of "gst_filing_timely data" "active_litigation data" ra]
      business_stability_range [of y i t "mgmt_risk data"]
    by (simp add: aggregate_categories)
qed

theorem scores_within_ceilings_witness:
  "case evaluate_customer strict_lib weak_applicant of Inl e \<Rightarrow> False
   | Inr r \<Rightarrow>
       (\<exists>fs pb ec bs.
           category_scores r ''financial_strength'' = Some fs \<and> 0 \<le> fs \<and> fs \<le> 40 \<and>
           category_scores r ''payment_behaviour'' = Some pb \<and> 0 \<le> pb \<and> pb \<le> 30 \<and>
           category_scores r ''external_checks'' = Some ec \<and> 0 \<le> ec \<and> ec \<le> 15 \<and>
           category_scores r ''business_stability'' = Some bs \<and> 0 \<le> bs \<and> bs \<le> 15 \<and>
           0 \<le> total_score r \<and> total_score r \<le> 100)"
  unfolding weak_applicant_result [of strict_lib] sum.case
  by (rule scores_within_ceilings [OF weak_applicant_result [of strict_lib]])

text \<open>
  C6. For the empty record \<^verbatim>\<open>evaluate_customer\<close> returns the category scores 19, 18, 7
  and 7, the total 51, the band MEDIUM and the decision CONDITIONAL\_APPROVAL.
\<close>

theorem empty_record_scores:
  "evaluate_customer L Map.empty =
     Inr \<lparr>total_score = 51, risk_band = MEDIUM, decision = CONDITIONAL_APPROVAL,
          category_scores =
            [''financial_strength'' \<mapsto> 19, ''payment_behaviour'' \<mapsto> 18,
             ''external_checks'' \<mapsto> 7, ''business_stability'' \<mapsto> 7],
          reasons =
            [''Net profit margin is very low or negative.'',
             ''Current ratio below 1.0 indicates tight liquidity.'',
             ''Bank limit utilisation is low; could indicate underutilisation of facilities.'',
             ''Limited operating history.'']\<rparr>"
  unfolding empty_record_result aggregate_eval by simp

text \<open>
  C7 (as amended). For the weak applicant \<^verbatim>\<open>evaluate_customer\<close> returns the category
  scores 4, 0, 2 and 0, the total 6, the band HIGH and the decision REJECT, and the list of
  reasons holds the fifteen strings of the adverse branches taken, in the order financial,
  payment, external, stability.
\<close>

theorem weak_applicant_scores:
  "evaluate_customer L weak_applicant =
     Inr \<lparr>total_score = 6, risk_band = HIGH, decision = REJECT,
          category_scores =
            [''financial_strength'' \<mapsto> 4, ''payment_behaviour'' \<mapsto> 0,
             ''external_checks'' \<mapsto> 2, ''business_stability'' \<mapsto> 0],
          reasons =
            [''Net profit margin is very low or negative.'',
             ''Current ratio below 1.0 indicates tight liquidity.'',
             ''Debt-to-equity is very high.'',
             ''Bank limit utilisation consistently >90% indicates stress on working capital.'',
             ''Turnover trend is declining.'',
             ''Very high average payment days.'',
             ''Frequent cheque bounces in last 12 months.'',
             ''History of default / write-off reported.'',
             ''GST filing not timely.'',
             ''Active litigation / legal disputes reported.'',
             ''Weak external rating (C).'',
             ''Limited operating history.'',
             ''High-risk industry.'',
             ''Very high dependence on few customers.'',
             ''Concerns flagged on management integrity / governance.'']\<rparr>"
  unfolding weak_applicant_result aggregate_eval by simp

text \<open>
  The claim as stated speaks of ten strings: the list returned for the weak applicant has
  fifteen.
\<close>

theorem weak_applicant_reasons_counterexample:
  "case evaluate_customer strict_lib weak_applicant of Inl e \<Rightarrow> False
   | Inr r \<Rightarrow> length (reasons r) = 15 \<and> length (reasons r) \<noteq> 10"
  unfolding weak_applicant_result [of strict_lib] sum.case aggregate_reasons by simp

subsection \<open>Records with a single field\<close>

lemma dict_get_single:
  "dict_get [k \<mapsto> v] k' d = (if k' = k then v else d)"
  by (simp add: dict_get_def)

lemmas reads_single = npm_def curr_ratio_def d2e_def bank_util_def trend_def avg_days_def
  bounces_def past_default_def gst_filing_timely_def active_litigation_def credit_rating_def
  years_def industry_risk_def top5_share_def mgmt_risk_def dict_get_single py_or_def
  try_bind_def str_lower_def lower_char_def float_of_int_def

lemma evaluate_customer_npm_raises:
  "npm L data = Inl e \<Longrightarrow> evaluate_customer L data = Inl e"
  by (simp add: evaluate_customer_def try_bind_def)

lemma evaluate_customer_curr_ratio_raises:
  "npm L data = Inr n \<Longrightarrow> curr_ratio L data = Inl e \<Longrightarrow> evaluate_customer L data = Inl e"
  by (simp add: evaluate_customer_def try_bind_def)

lemma evaluate_customer_d2e_raises:
  "npm L data = Inr n \<Longrightarrow> curr_ratio L data = Inr c \<Longrightarrow> d2e L data = Inl e \<Longrightarrow>
     evaluate_customer L data = Inl e"
  by (simp add: evaluate_customer_def try_bind_def)

lemma evaluate_customer_bank_util_raises:
  "npm L data = Inr n \<Longrightarrow> curr_ratio L data = Inr c \<Longrightarrow> d2e L data = Inr d \<Longrightarrow>
     bank_util L data = Inl e \<Longrightarrow> evaluate_customer L data = Inl e"
  by (simp add: evaluate_customer_def try_bind_def)

lemma years_null_reads:
  "npm L [''years_in_business'' \<mapsto> PNone] = Inr (Finite 0)"
  "curr_ratio L [''years_in_business'' \<mapsto> PNone] = Inr (Finite 0)"
  "d2e L [''years_in_business'' \<mapsto> PNone] = Inr (Finite 0)"
  "bank_util L [''years_in_business'' \<mapsto> PNone] = Inr (Finite 0)"
  "trend L [''years_in_business'' \<mapsto> PNone] = Inr ''stable''"
  "avg_days L [''years_in_business'' \<mapsto> PNone] = Inr 45"
  "bounces L [''years_in_business'' \<mapsto> PNone] = Inr 0"
  "past_default [''years_in_business'' \<mapsto> PNone] = False"
  "gst_filing_timely [''years_in_business'' \<mapsto> PNone] = PNone"
  "active_litigation [''years_in_business'' \<mapsto> PNone] = PNone"
  "credit_rating [''years_in_business'' \<mapsto> PNone] = PNone"
  "years L [''years_in_business'' \<mapsto> PNone] = Inr (Finite 0)"
  "industry_risk L [''years_in_business'' \<mapsto> PNone] = Inr ''medium''"
  "top5_share L [''years_in_business'' \<mapsto> PNone] = Inr (Finite 0)"
  "mgmt_risk [''years_in_business'' \<mapsto> PNone] = False"
  by (simp_all add: reads_single)

text \<open>
  C4. The claim: a null value in \<^verbatim>\<open>net_profit_margin\<close>, \<^verbatim>\<open>current_ratio\<close>,
  \<^verbatim>\<open>debt_to_equity\<close> or \<^verbatim>\<open>banking_limit_utilisation\<close> gives the result of the record
  without the field. The code: \<^verbatim>\<open>float(None)\<close> raises TypeError for each of the four,
  whereas the empty record is evaluated, and a null \<^verbatim>\<open>years_in_business\<close>, which the
  source guards with \<^verbatim>\<open>or 0.0\<close>, is evaluated as the empty record is.
\<close>

theorem null_financial_field_raises:
  "evaluate_customer L [''net_profit_margin'' \<mapsto> PNone] = Inl TypeError \<and>
   evaluate_customer L [''current_ratio'' \<mapsto> PNone] = Inl TypeError \<and>
   evaluate_customer L [''debt_to_equity'' \<mapsto> PNone] = Inl TypeError \<and>
   evaluate_customer L [''banking_limit_utilisation'' \<mapsto> PNone] = Inl TypeError \<and>
   (\<exists>r. evaluate_customer L Map.empty = Inr r) \<and>
   evaluate_customer L [''years_in_business'' \<mapsto> PNone] = evaluate_customer L Map.empty"
proof -
  have 1: "evaluate_customer L [''net_profit_margin'' \<mapsto> PNone] = Inl TypeError"
    by (rule evaluate_customer_npm_raises) (simp add: reads_single)
  have 2: "evaluate_customer L [''current_ratio'' \<mapsto> PNone] = Inl TypeError"
    by (rule evaluate_customer_curr_ratio_raises [where n = "Finite 0"])
      (simp_all add: reads_single)
  have 3: "evaluate_customer L [''debt_to_equity'' \<mapsto> PNone] = Inl TypeError"
    by (rule evaluate_customer_d2e_raises [where n = "Finite 0" and c = "Finite 0"])
      (simp_all add: reads_single)
  have 4: "evaluate_customer L [''banking_limit_utilisation'' \<mapsto> PNone] = Inl TypeError"
    by (rule evaluate_customer_bank_util_raises
          [where n = "Finite 0" and c = "Finite 0" and d = "Finite 0"])
      (simp_all add: reads_single)
  have 5: "\<exists>r. evaluate_customer L Map.empty = Inr r"
    by (simp add: empty_record_result)
  have 6: "evaluate_customer L [''years_in_business'' \<mapsto> PNone] = evaluate_customer L Map.empty"
    by (simp add: evaluate_customer_def years_null_reads empty_reads)
  from 1 2 3 4 5 6 show ?thesis by blast
qed

lemma days_ten_reads:
  "npm L [''avg_days_to_pay'' \<mapsto> PInt 10] = Inr (Finite 0)"
  "curr_ratio L [''avg_days_to_pay'' \<mapsto> PInt 10] = Inr (Finite 0)"
  "d2e L [''avg_days_to_pay'' \<mapsto> PInt 10] = Inr (Finite 0)"
  "bank_util L [''avg_days_to_pay'' \<mapsto> PInt 10] = Inr (Finite 0)"
  "trend L [''avg_days_to_pay'' \<mapsto> PInt 10] = Inr ''stable''"
  "avg_days L [''avg_days_to_pay'' \<mapsto> PInt 10] = Inr 10"
  "bounces L [''avg_days_to_pay'' \<mapsto> PInt 10] = Inr 0"
  "past_default [''avg_days_to_pay'' \<mapsto> PInt 10] = False"
  "gst_filing_timely [''avg_days_to_pay'' \<mapsto> PInt 10] = PNone"
  "active_litigation [''avg_days_to_pay'' \<mapsto> PInt 10] = PNone"
  "credit_rating [''avg_days_to_pay'' \<mapsto> PInt 10] = PNone"
  "years L [''avg_days_to_pay'' \<mapsto> PInt 10] = Inr (Finite 0)"
  "industry_risk L [''avg_days_to_pay'' \<mapsto> PInt 10] = Inr ''medium''"
  "top5_share L [''avg_days_to_pay'' \<mapsto> PInt 10] = Inr (Finite 0)"
  "mgmt_risk [''avg_days_to_pay'' \<mapsto> PInt 10] = False"
  by (simp_all add: reads_single)

lemma days_zero_reads:
  "npm L [''avg_days_to_pay'' \<mapsto> PInt 0] = Inr (Finite 0)"
  "curr_ratio L [''avg_days_to_pay'' \<mapsto> PInt 0] = Inr (Finite 0)"
  "d2e L [''avg_days_to_pay'' \<mapsto> PInt 0] = Inr (Finite 0)"
  "bank_util L [''avg_days_to_pay'' \<mapsto> PInt 0] = Inr (Finite 0)"
  "trend L [''avg_days_to_pay'' \<mapsto> PInt 0] = Inr ''stable''"
  "avg_days L [''avg_days_to_pay'' \<mapsto> PInt 0] = Inr 45"
  "bounces L [''avg_days_to_pay'' \<mapsto> PInt 0] = Inr 0"
  "past_default [''avg_days_to_pay'' \<mapsto> PInt 0] = False"
  "gst_filing_timely [''avg_days_to_pay'' \<mapsto> PInt 0] = PNone"
  "active_litigation [''avg_days_to_pay'' \<mapsto> PInt 0] = PNone"
  "credit_rating [''avg_days_to_pay'' \<mapsto> PInt 0] = PNone"
  "years L [''avg_days_to_pay'' \<mapsto> PInt 0] = Inr (Finite 0)"
  "industry_risk L [''avg_days_to_pay'' \<mapsto> PInt 0] = Inr ''medium''"
  "top5_share L [''avg_days_to_pay'' \<mapsto> PInt 0] = Inr (Finite 0)"
  "mgmt_risk [''avg_days_to_pay'' \<mapsto> PInt 0] = False"
  by (simp_all add: reads_single)

lemma payment_ten: "payment_behaviour 10 0 False = (20, [])"
  by (simp add: payment_behaviour_def sub_scores clamp_def)

text \<open>
  C3. The claim: for integers \<open>d \<le> d'\<close> of \<^verbatim>\<open>avg_days_to_pay\<close>, all other fields equal,
  the days-to-pay sub-score for \<open>d\<close> is at least the one for \<open>d'\<close>. The code at
  \<open>d = 0\<close>, \<open>d' = 10\<close>: \<^verbatim>\<open>0 or 45\<close> is 45, so zero days are scored as 45 days, with the
  sub-score 8, below the sub-score 10 of ten days; the record with zero days is evaluated
  exactly as the empty record (payment behaviour 18), the record with ten days has payment
  behaviour 20.
\<close>

theorem zero_days_to_pay_scored_as_default:
  "try_bind (avg_days L [''avg_days_to_pay'' \<mapsto> PInt 0]) (\<lambda>a. Inr (s_days a)) = Inr (8, []) \<and>
   try_bind (avg_days L [''avg_days_to_pay'' \<mapsto> PInt 10]) (\<lambda>a. Inr (s_days a)) = Inr (10, []) \<and>
   evaluate_customer L [''avg_days_to_pay'' \<mapsto> PInt 0] = evaluate_customer L Map.empty \<and>
   try_bind (evaluate_customer L [''avg_days_to_pay'' \<mapsto> PInt 0])
     (\<lambda>r. Inr (category_scores r ''payment_behaviour'')) = Inr (Some 18) \<and>
   try_bind (evaluate_customer L [''avg_days_to_pay'' \<mapsto> PInt 10])
     (\<lambda>r. Inr (category_scores r ''payment_behaviour'')) = Inr (Some 20)"
proof -
  have 1: "try_bind (avg_days L [''avg_days_to_pay'' \<mapsto> PInt 0]) (\<lambda>a. Inr (s_days a)) = Inr (8, [])"
    by (simp add: days_zero_reads try_bind_def s_days_def)
  have 2: "try_bind (avg_days L [''avg_days_to_pay'' \<mapsto> PInt 10]) (\<lambda>a. Inr (s_days a)) = Inr (10, [])"
    by (simp add: days_ten_reads try_bind_def s_days_def)
  have 3: "evaluate_customer L [''avg_days_to_pay'' \<mapsto> PInt 0] = evaluate_customer L Map.empty"
    by (simp add: evaluate_customer_def days_zero_reads empty_reads)
  have 4: "try_bind (evaluate_customer L [''avg_days_to_pay'' \<mapsto> PInt 0])
     (\<lambda>r. Inr (category_scores r ''payment_behaviour'')) = Inr (Some 18)"
    unfolding 3 empty_record_result by (simp add: try_bind_def aggregate_categories)
  have "evaluate_customer L [''avg_days_to_pay'' \<mapsto> PInt 10] =
          Inr (aggregate
            (19, [''Net profit margin is very low or negative.'',
               ''Current ratio below 1.0 indicates tight liquidity.'',
               ''Bank limit utilisation is low; could indicate underutilisation of facilities.''])
            (20, []) (7, []) (7, [''Limited operating history.'']))"
    by (simp add: evaluate_customer_def try_bind_def days_ten_reads rating_None empty_categories
        payment_ten)
  then have 5: "try_bind (evaluate_customer L [''avg_days_to_pay'' \<mapsto> PInt 10])
     (\<lambda>r. Inr (category_scores r ''payment_behaviour'')) = Inr (Some 20)"
    by (simp add: try_bind_def aggregate_categories)
  from 1 2 3 4 5 show ?thesis by blast
qed

text \<open>
  C8. At the boundary values the inclusive branch applies: a \<^verbatim>\<open>current_ratio\<close> of exactly
  1.5 scores 8, a \<^verbatim>\<open>banking_limit_utilisation\<close> of exactly 40 and of exactly 80 scores 8,
  and \<^verbatim>\<open>avg_days_to_pay\<close> of exactly 90 scores 2 (with its reason), not 0.
\<close>

theorem boundary_values_inclusive:
  "try_bind (curr_ratio L [''current_ratio'' \<mapsto> PFloat (Finite (3 / 2))])
     (\<lambda>c. Inr (s_cr c)) = Inr (8, []) \<and>
   try_bind (bank_util L [''banking_limit_utilisation'' \<mapsto> PInt 40])
     (\<lambda>b. Inr (s_bank b)) = Inr (8, []) \<and>
   try_bind (bank_util L [''banking_limit_utilisation'' \<mapsto> PInt 80])
     (\<lambda>b. Inr (s_bank b)) = Inr (8, []) \<and>
   try_bind (bank_util L [''banking_limit_utilisation'' \<mapsto> PFloat (Finite 40)])
     (\<lambda>b. Inr (s_bank b)) = Inr (8, []) \<and>
   try_bind (bank_util L [''banking_limit_utilisation'' \<mapsto> PFloat (Finite 80)])
     (\<lambda>b. Inr (s_bank b)) = Inr (8, []) \<and>
   try_bind (avg_days L [''avg_days_to_pay'' \<mapsto> PInt 90])
     (\<lambda>a. Inr (s_days a)) = Inr (2, [''Average payment days are on the higher side.''])"
  by (simp add: reads_single try_bind_def s_cr_def s_bank_def s_days_def)

lemma trend_null_reads:
  "npm L [''turnover_trend'' \<mapsto> PNone] = Inr (Finite 0)"
  "curr_ratio L [''turnover_trend'' \<mapsto> PNone] = Inr (Finite 0)"
  "d2e L [''turnover_trend'' \<mapsto> PNone] = Inr (Finite 0)"
  "bank_util L [''turnover_trend'' \<mapsto> PNone] = Inr (Finite 0)"
  "trend L [''turnover_trend'' \<mapsto> PNone] = Inr []"
  "avg_days L [''turnover_trend'' \<mapsto> PNone] = Inr 45"
  "bounces L [''turnover_trend'' \<mapsto> PNone] = Inr 0"
  "past_default [''turnover_trend'' \<mapsto> PNone] = False"
  "gst_filing_timely [''turnover_trend'' \<mapsto> PNone] = PNone"
  "active_litigation [''turnover_trend'' \<mapsto> PNone] = PNone"
  "credit_rating [''turnover_trend'' \<mapsto> PNone] = PNone"
  "years L [''turnover_trend'' \<mapsto> PNone] = Inr (Finite 0)"
  "industry_risk L [''turnover_trend'' \<mapsto> PNone] = Inr ''medium''"
  "top5_share L [''turnover_trend'' \<mapsto> PNone] = Inr (Finite 0)"
  "mgmt_risk [''turnover_trend'' \<mapsto> PNone] = False"
  by (simp_all add: reads_single)

lemma financial_no_trend:
  "financial_strength (Finite 0) (Finite 0) (Finite 0) (Finite 0) [] =
     (18, [''Net profit margin is very low or negative.'',
           ''Current ratio below 1.0 indicates tight liquidity.'',
           ''Bank limit utilisation is low; could indicate underutilisation of facilities.''])"
  by (simp add: financial_strength_def sub_scores clamp_def)

text \<open>
  C5. The claim: an absent or a null \<^verbatim>\<open>turnover_trend\<close> defaults to \<open>stable\<close>, with the
  sub-score 4 and no reason, as an explicit \<open>stable\<close>; an unrecognised non-empty string
  scores 3 with no reason. The code: the absent field, the explicit \<open>stable\<close> and the
  unrecognised string are scored as claimed, but a null is replaced by the empty string
  (\<^verbatim>\<open>or ""\<close>), not by the default, and scores 3: the record with a null trend has financial
  strength 18, the empty record 19. The sibling read of \<^verbatim>\<open>industry_risk\<close>
  (\<^verbatim>\<open>or "medium"\<close>) gives a null the default.
\<close>

theorem null_turnover_trend_not_defaulted:
  "try_bind (trend L Map.empty) (\<lambda>t. Inr (s_trend t)) = Inr (4, []) \<and>
   try_bind (trend L [''turnover_trend'' \<mapsto> PStr ''stable'']) (\<lambda>t. Inr (s_trend t)) =
     Inr (4, []) \<and>
   try_bind (trend L [''turnover_trend'' \<mapsto> PStr ''Seasonal'']) (\<lambda>t. Inr (s_trend t)) =
     Inr (3, []) \<and>
   try_bind (trend L [''turnover_trend'' \<mapsto> PNone]) (\<lambda>t. Inr (s_trend t)) = Inr (3, []) \<and>
   try_bind (evaluate_customer L [''turnover_trend'' \<mapsto> PNone])
     (\<lambda>r. Inr (category_scores r ''financial_strength'')) = Inr (Some 18) \<and>
   try_bind (evaluate_customer L Map.empty)
     (\<lambda>r. Inr (category_scores r ''financial_strength'')) = Inr (Some 19) \<and>
   industry_risk L [''industry_risk'' \<mapsto> PNone] = industry_risk L Map.empty"
proof -
  have 1: "try_bind (trend L Map.empty) (\<lambda>t. Inr (s_trend t)) = Inr (4, [])"
    by (simp add: empty_reads try_bind_def s_trend_def)
  have 2: "try_bind (trend L [''turnover_trend'' \<mapsto> PStr ''stable'']) (\<lambda>t. Inr (s_trend t)) =
     Inr (4, [])"
    by (simp add: reads_single s_trend_def)
  have 3: "try_bind (trend L [''turnover_trend'' \<mapsto> PStr ''Seasonal'']) (\<lambda>t. Inr (s_trend t)) =
     Inr (3, [])"
    by (simp add: reads_single s_trend_def)
  have 4: "try_bind (trend L [''turnover_trend'' \<mapsto> PNone]) (\<lambda>t. Inr (s_trend t)) = Inr (3, [])"
    by (simp add: trend_null_reads try_bind_def s_trend_def)
  have "evaluate_customer L [''turnover_trend'' \<mapsto> PNone] =
          Inr (aggregate
            (18, [''Net profit margin is very low or negative.'',
               ''Current ratio below 1.0 indicates tight liquidity.'',
               ''Bank limit utilisation is low; could indicate underutilisation of facilities.''])
            (18, []) (7, []) (7, [''Limited operating history.'']))"
    by (simp add: evaluate_customer_def try_bind_def trend_null_reads rating_None
        financial_no_trend empty_categories)
  then have 5: "try_bind (evaluate_customer L [''turnover_trend'' \<mapsto> PNone])
     (\<lambda>r. Inr (category_scores r ''financial_strength'')) = Inr (Some 18)"
    by (simp add: try_bind_def aggregate_categories)
  have 6: "try_bind (evaluate_customer L Map.empty)
     (\<lambda>r. Inr (category_scores r ''financial_strength'')) = Inr (Some 19)"
    unfolding empty_record_result by (simp add: try_bind_def aggregate_categories)
  have 7: "industry_risk L [''industry_risk'' \<mapsto> PNone] = industry_risk L Map.empty"
    unfolding empty_reads by (simp add: reads_single)
  from 1 2 3 4 5 6 7 show ?thesis by blast
qed

text \<open>
  C9. \<^verbatim>\<open>evaluate_customer\<close> is deterministic: its outcome (the exception, or the total,
  band, decision, category scores and the list of reasons in order) is determined by the
  values of the fifteen documented fields of the record, and by nothing else. In particular
  two evaluations of the same record give the same outcome.
\<close>

theorem evaluate_customer_deterministic:
  assumes "\<forall>k \<in> set input_fields. data k = data' k"
  shows "evaluate_customer L data = evaluate_customer L data'"
proof -
  from assms have
    "data ''net_profit_margin'' = data' ''net_profit_margin''"
    "data ''current_ratio'' = data' ''current_ratio''"
    "data ''debt_to_equity'' = data' ''debt_to_equity''"
    "data ''banking_limit_utilisation'' = data' ''banking_limit_utilisation''"
    "data ''turnover_trend'' = data' ''turnover_trend''"
    "data ''avg_days_to_pay'' = data' ''avg_days_to_pay''"
    "data ''bounced_cheques_last_12m'' = data' ''bounced_cheques_last_12m''"
    "data ''past_default_flag'' = data' ''past_default_flag''"
    "data ''gst_filing_timely'' = data' ''gst_filing_timely''"
    "data ''active_litigation'' = data' ''active_litigation''"
    "data ''credit_rating'' = data' ''credit_rating''"
    "data ''years_in_business'' = data' ''years_in_business''"
    "data ''industry_risk'' = data' ''industry_risk''"
    "data ''top_5_customer_share'' = data' ''top_5_customer_share''"
    "data ''management_risk_flag'' = data' ''management_risk_flag''"
    by (simp_all add: input_fields_def)
  then have
    "npm L data = npm L data'" "curr_ratio L data = curr_ratio L data'"
    "d2e L data = d2e L data'" "bank_util L data = bank_util L data'"
    "trend L data = trend L data'" "avg_days L data = avg_days L data'"
    "bounces L data = bounces L data'" "past_default data = past_default data'"
    "gst_filing_timely data = gst_filing_timely data'"
    "active_litigation data = active_litigation data'"
    "credit_rating data = credit_rating data'" "years L data = years L data'"
    "industry_risk L data = industry_risk L data'" "top5_share L data = top5_share L data'"
    "mgmt_risk data = mgmt_risk data'"
    unfolding npm_def curr_ratio_def d2e_def bank_util_def trend_def avg_days_def bounces_def
      past_default_def gst_filing_timely_def active_litigation_def credit_rating_def years_def
      industry_risk_def top5_share_def mgmt_risk_def dict_get_def
    by simp_all
  then show ?thesis
    unfolding evaluate_customer_def by simp
qed

theorem evaluate_customer_deterministic_witness:
  "evaluate_customer strict_lib [''avg_days_to_pay'' \<mapsto> PInt 10, ''customer'' \<mapsto> PStr ''Acme''] =
     evaluate_customer strict_lib [''avg_days_to_pay'' \<mapsto> PInt 10]"
  by (rule evaluate_customer_deterministic) (simp add: input_fields_def)

lemma external_checks_unknown:
  assumes "v \<noteq> PBool True" "v \<noteq> PBool False"
  shows "external_checks v l ra = external_checks PNone l ra"
    and "external_checks g v ra = external_checks g PNone ra"
  using assms by (simp_all add: external_checks_def s_gst_def s_lit_def)

text \<open>
  C10. A value of \<^verbatim>\<open>gst_filing_timely\<close> or \<^verbatim>\<open>active_litigation\<close> that is neither the
  boolean True nor the boolean False (the integer 1, the string \<open>yes\<close>, the integer 0)
  is scored as unknown: sub-score 3 and no reason, and the whole evaluation is the one of
  the record without that field.
\<close>

theorem non_boolean_flag_scored_as_unknown:
  assumes "v \<noteq> PBool True" "v \<noteq> PBool False"
  shows "s_gst v = (3, []) \<and> s_lit v = (3, []) \<and>
         evaluate_customer L (data(''gst_filing_timely'' \<mapsto> v)) =
           evaluate_customer L (data(''gst_filing_timely'' := None)) \<and>
         evaluate_customer L (data(''active_litigation'' \<mapsto> v)) =
           evaluate_customer L (data(''active_litigation'' := None))"
proof -
  have 1: "s_gst v = (3, [])" "s_lit v = (3, [])"
    using assms by (simp_all add: s_gst_def s_lit_def)
  have 2: "evaluate_customer L (data(''gst_filing_timely'' \<mapsto> v)) =
           evaluate_customer L (data(''gst_filing_timely'' := None))"
    unfolding evaluate_customer_def
    by (simp add: readers external_checks_unknown(1) [OF assms])
  have 3: "evaluate_customer L (data(''active_litigation'' \<mapsto> v)) =
           evaluate_customer L (data(''active_litigation'' := None))"
    unfolding evaluate_customer_def
    by (simp add: readers external_checks_unknown(2) [OF assms])
  from 1 2 3 show ?thesis by blast
qed

theorem non_boolean_flag_scored_as_unknown_witness:
  "s_gst (PInt 1) = (3, []) \<and> s_lit (PInt 1) = (3, []) \<and>
   s_gst (PStr ''yes'') = (3, []) \<and> s_lit (PStr ''yes'') = (3, []) \<and>
   s_gst (PInt 0) = (3, []) \<and> s_lit (PInt 0) = (3, []) \<and>
   evaluate_customer strict_lib [''gst_filing_timely'' \<mapsto> PInt 1] =
     evaluate_customer strict_lib Map.empty"
proof -
  have a: "PInt 1 \<noteq> PBool True" "PInt 1 \<noteq> PBool False" by simp_all
  have b: "PStr ''yes'' \<noteq> PBool True" "PStr ''yes'' \<noteq> PBool False" by simp_all
  have c: "PInt 0 \<noteq> PBool True" "PInt 0 \<noteq> PBool False" by simp_all
  show ?thesis
    using non_boolean_flag_scored_as_unknown [OF a, of strict_lib Map.empty]
      non_boolean_flag_scored_as_unknown [OF b, of strict_lib Map.empty]
      non_boolean_flag_scored_as_unknown [OF c, of strict_lib Map.empty]
    by simp
qed

end
